theory Spec2Isabelle
  imports Main
begin

section \<open>Python strings\<close>

text \<open>
  A Python \<^verbatim>\<open>str\<close> is a sequence of Unicode code points, so a string is a list of
  code point numbers here (an Isabelle \<open>char\<close> is a byte, and the literals of
  \<^verbatim>\<open>main.py\<close> are Cyrillic). ASCII literals are written through \<open>cp\<close>.
\<close>

type_synonym pystr = "nat list"

definition cp :: "string \<Rightarrow> pystr" where
  "cp s = map of_char s"

text \<open>
  \<^verbatim>\<open>str.lower()\<close>. The handlers use it only to compare a message with the literal
  \<^verbatim>\<open>"\u043d\u0435\u0442"\<close>. The table is the one of Unicode for Basic Latin
  (U+0041..U+005A) and for the Cyrillic capitals (U+0400..U+042F); every other code
  point is left as it is. No code point outside these ranges has a lower-case form that
  contains one of the three letters of the literal.
\<close>

definition lower_cp :: "nat \<Rightarrow> nat" where
  "lower_cp c =
     (if 65 \<le> c \<and> c \<le> 90 then c + 32
      else if 1024 \<le> c \<and> c \<le> 1039 then c + 80
      else if 1040 \<le> c \<and> c \<le> 1071 then c + 32
      else c)"

definition lower :: "pystr \<Rightarrow> pystr" where
  "lower s = map lower_cp s"

text \<open>
  \<^verbatim>\<open>str.isspace\<close> on one code point: the 29 code points that \<^verbatim>\<open>str.strip()\<close>
  removes (U+0009..U+000D, U+001C..U+0020, U+0085, U+00A0, U+1680, U+2000..U+200A,
  U+2028, U+2029, U+202F, U+205F, U+3000).
\<close>

definition isspace :: "nat \<Rightarrow> bool" where
  "isspace c \<longleftrightarrow>
     (9 \<le> c \<and> c \<le> 13) \<or> (28 \<le> c \<and> c \<le> 32) \<or> c = 133 \<or> c = 160 \<or> c = 5760
     \<or> (8192 \<le> c \<and> c \<le> 8202) \<or> c = 8232 \<or> c = 8233 \<or> c = 8239 \<or> c = 8287
     \<or> c = 12288"

definition strip :: "pystr \<Rightarrow> pystr" where
  "strip s = rev (dropWhile isspace (rev (dropWhile isspace s)))"

text \<open>
  \<^verbatim>\<open>s.split(sep, 1)\<close> for a separator of one code point: the whole string when the
  separator does not occur, otherwise the part before its first occurrence and the
  part after it.
\<close>

definition split1 :: "nat \<Rightarrow> pystr \<Rightarrow> pystr list" where
  "split1 sep s =
     (case dropWhile (\<lambda>c. c \<noteq> sep) s of
        [] \<Rightarrow> [s]
      | _ # rest \<Rightarrow> [takeWhile (\<lambda>c. c \<noteq> sep) s, rest])"

text \<open>
  The exceptions that the handlers can meet. \<open>TransportError\<close> stands for whatever a
  send of the bot raises, with the text of the exception.
\<close>

datatype error = AttributeError | KeyError | ValueError | TransportError pystr

text \<open>
  \<^verbatim>\<open>a, b = parts\<close>: unpacking into two names raises \<^verbatim>\<open>ValueError\<close> unless the list
  has exactly two elements.
\<close>

fun unpack2 :: "'a list \<Rightarrow> error + ('a \<times> 'a)" where
  "unpack2 [a, b] = Inr (a, b)"
| "unpack2 _ = Inl ValueError"

text \<open>Truth value of an optional string: \<^verbatim>\<open>None\<close> and \<^verbatim>\<open>""\<close> are false.\<close>

fun truthy :: "pystr option \<Rightarrow> bool" where
  "truthy None = False"
| "truthy (Some s) = (s \<noteq> [])"

section \<open>Database\<close>

text \<open>
  The two tables of \<^verbatim>\<open>init_db\<close>, each a list of rows. \<^verbatim>\<open>posts\<close> has no key at all
  and is kept in rowid order, the order in which a selection returns its rows;
  \<^verbatim>\<open>users\<close> is read by its key only, so the order of its list does not matter. Every
  column but the key of \<^verbatim>\<open>users\<close> is nullable (\<open>None\<close> is SQL \<^verbatim>\<open>NULL\<close>).
\<close>

type_synonym user_row = "int \<times> pystr option"

type_synonym post = "pystr option \<times> pystr option \<times> pystr option \<times> pystr option"

type_synonym post_row = "int \<times> post"

record database =
  users :: "user_row list"
  posts :: "post_row list"

text \<open>
  \<^verbatim>\<open>init_db\<close>: \<open>None\<close> is a \<^verbatim>\<open>bot.db\<close> that does not exist yet; both tables are
  created empty. On an existing database \<^verbatim>\<open>CREATE TABLE IF NOT EXISTS\<close> changes
  nothing.
\<close>

fun init_db :: "database option \<Rightarrow> database" where
  "init_db None = \<lparr>users = [], posts = []\<rparr>"
| "init_db (Some d) = d"

text \<open>
  \<^verbatim>\<open>INSERT OR REPLACE\<close> on the primary key \<^verbatim>\<open>user_id\<close>: the row with the same key
  is deleted, then the new row is inserted.
\<close>

definition set_channel :: "int \<Rightarrow> pystr option \<Rightarrow> database \<Rightarrow> database" where
  "set_channel user_id channel_id d =
     d\<lparr>users := filter (\<lambda>r. fst r \<noteq> user_id) (users d) @ [(user_id, channel_id)]\<rparr>"

text \<open>\<^verbatim>\<open>fetchone()\<close> gives the first row of the selection; \<^verbatim>\<open>row[0] if row else None\<close>.\<close>

definition get_channel :: "int \<Rightarrow> database \<Rightarrow> pystr option" where
  "get_channel user_id d =
     (case filter (\<lambda>r. fst r = user_id) (users d) of
        [] \<Rightarrow> None
      | row # _ \<Rightarrow> snd row)"

text \<open>\<^verbatim>\<open>DELETE FROM posts WHERE user_id=?\<close>, then \<^verbatim>\<open>INSERT\<close>, then one commit.\<close>

definition save_post ::
  "int \<Rightarrow> pystr option \<Rightarrow> pystr option \<Rightarrow> pystr option \<Rightarrow> pystr option \<Rightarrow> database \<Rightarrow> database"
where
  "save_post user_id txt media button_text button_url d =
     d\<lparr>posts := filter (\<lambda>r. fst r \<noteq> user_id) (posts d)
                  @ [(user_id, (txt, media, button_text, button_url))]\<rparr>"

definition get_post :: "int \<Rightarrow> database \<Rightarrow> post option" where
  "get_post user_id d =
     (case filter (\<lambda>r. fst r = user_id) (posts d) of
        [] \<Rightarrow> None
      | row # _ \<Rightarrow> Some (snd row))"

text \<open>Number of rows that an operator has in each table.\<close>

definition links_of :: "int \<Rightarrow> database \<Rightarrow> nat" where
  "links_of user_id d = length (filter (\<lambda>r. fst r = user_id) (users d))"

definition drafts_of :: "int \<Rightarrow> database \<Rightarrow> nat" where
  "drafts_of user_id d = length (filter (\<lambda>r. fst r = user_id) (posts d))"

text \<open>
  A history of the store: the calls of \<^verbatim>\<open>set_channel\<close> and \<^verbatim>\<open>save_post\<close> that the
  process has made since \<^verbatim>\<open>init_db\<close> created the tables, oldest first.
\<close>

datatype db_call =
    SetChannel int "pystr option"
  | SavePost int "pystr option" "pystr option" "pystr option" "pystr option"

fun apply_call :: "db_call \<Rightarrow> database \<Rightarrow> database" where
  "apply_call (SetChannel u c) d = set_channel u c d"
| "apply_call (SavePost u t m bt bu) d = save_post u t m bt bu d"

fun apply_calls :: "db_call list \<Rightarrow> database \<Rightarrow> database" where
  "apply_calls [] d = d"
| "apply_calls (c # cs) d = apply_calls cs (apply_call c d)"

section \<open>The literals of the handlers\<close>

text \<open>
  Each string literal of \<^verbatim>\<open>main.py\<close> that is not ASCII, as its code points; the
  literal is quoted above each definition with Python's escapes. \<open>bar\<close> is the
  delimiter \<^verbatim>\<open>"|"\<close>.
\<close>

definition bar :: nat where
  "bar = 124"

text \<open>
  \<^verbatim>\<open>"\u043d\u0435\u0442"\<close>, the word by which the operator declines the media and the
  button; the specification writes it \<^verbatim>\<open>"none"\<close>.
\<close>

definition lit_net :: pystr where
  "lit_net =
     [1085, 1077, 1090]"

text \<open>\<^verbatim>\<open>"\u041f\u0440\u0438\u0432\u0435\u0442! \U0001f44b\n\u0412\u044b\u0431\u0435\u0440\u0438 \u0434\u0435\u0439\u0441\u0442\u0432\u0438\u0435:"\<close>\<close>

definition msg_greeting :: pystr where
  "msg_greeting =
     [1055, 1088, 1080, 1074, 1077, 1090, 33, 32, 128075, 10, 1042, 1099, 1073, 1077,
      1088, 1080, 32, 1076, 1077, 1081, 1089, 1090, 1074, 1080, 1077, 58]"

text \<open>\<^verbatim>\<open>"\U0001f4cc \u041f\u0440\u0438\u0432\u044f\u0437\u0430\u0442\u044c \u043a\u0430\u043d\u0430\u043b"\<close>\<close>

definition label_set_channel :: pystr where
  "label_set_channel =
     [128204, 32, 1055, 1088, 1080, 1074, 1103, 1079, 1072, 1090, 1100, 32, 1082, 1072,
      1085, 1072, 1083]"

text \<open>\<^verbatim>\<open>"\u270f \u0421\u043e\u0437\u0434\u0430\u0442\u044c \u043f\u043e\u0441\u0442"\<close>\<close>

definition label_new_post :: pystr where
  "label_new_post =
     [9999, 32, 1057, 1086, 1079, 1076, 1072, 1090, 1100, 32, 1087, 1086, 1089, 1090]"

text \<open>\<^verbatim>\<open>"\u2705 \u041e\u043f\u0443\u0431\u043b\u0438\u043a\u043e\u0432\u0430\u0442\u044c"\<close>\<close>

definition label_confirm_yes :: pystr where
  "label_confirm_yes =
     [9989, 32, 1054, 1087, 1091, 1073, 1083, 1080, 1082, 1086, 1074, 1072, 1090, 1100]"

text \<open>\<^verbatim>\<open>"\u274c \u041e\u0442\u043c\u0435\u043d\u0438\u0442\u044c"\<close>\<close>

definition label_confirm_no :: pystr where
  "label_confirm_no =
     [10060, 32, 1054, 1090, 1084, 1077, 1085, 1080, 1090, 1100]"

text \<open>\<^verbatim>\<open>"\u041e\u0442\u043f\u0440\u0430\u0432\u044c @username \u0438\u043b\u0438 ID \u043a\u0430\u043d\u0430\u043b\u0430:"\<close>\<close>

definition msg_ask_channel :: pystr where
  "msg_ask_channel =
     [1054, 1090, 1087, 1088, 1072, 1074, 1100, 32, 64, 117, 115, 101, 114, 110, 97,
      109, 101, 32, 1080, 1083, 1080, 32, 73, 68, 32, 1082, 1072, 1085, 1072, 1083,
      1072, 58]"

text \<open>\<^verbatim>\<open>"\u2705 \u041a\u0430\u043d\u0430\u043b "\<close>\<close>

definition msg_linked_prefix :: pystr where
  "msg_linked_prefix =
     [9989, 32, 1050, 1072, 1085, 1072, 1083, 32]"

text \<open>\<^verbatim>\<open>" \u043f\u0440\u0438\u0432\u044f\u0437\u0430\u043d."\<close>\<close>

definition msg_linked_suffix :: pystr where
  "msg_linked_suffix =
     [32, 1087, 1088, 1080, 1074, 1103, 1079, 1072, 1085, 46]"

text \<open>\<^verbatim>\<open>"\u274c \u0421\u043d\u0430\u0447\u0430\u043b\u0430 \u043f\u0440\u0438\u0432\u044f\u0436\u0438 \u043a\u0430\u043d\u0430\u043b \u0447\u0435\u0440\u0435\u0437 \u043a\u043d\u043e\u043f\u043a\u0443 '\U0001f4cc \u041f\u0440\u0438\u0432\u044f\u0437\u0430\u0442\u044c \u043a\u0430\u043d\u0430\u043b'"\<close>\<close>

definition msg_need_channel :: pystr where
  "msg_need_channel =
     [10060, 32, 1057, 1085, 1072, 1095, 1072, 1083, 1072, 32, 1087, 1088, 1080, 1074,
      1103, 1078, 1080, 32, 1082, 1072, 1085, 1072, 1083, 32, 1095, 1077, 1088, 1077,
      1079, 32, 1082, 1085, 1086, 1087, 1082, 1091, 32, 39, 128204, 32, 1055, 1088,
      1080, 1074, 1103, 1079, 1072, 1090, 1100, 32, 1082, 1072, 1085, 1072, 1083, 39]"

text \<open>\<^verbatim>\<open>"\u041e\u0442\u043f\u0440\u0430\u0432\u044c \u0442\u0435\u043a\u0441\u0442 \u043f\u043e\u0441\u0442\u0430:"\<close>\<close>

definition msg_ask_text :: pystr where
  "msg_ask_text =
     [1054, 1090, 1087, 1088, 1072, 1074, 1100, 32, 1090, 1077, 1082, 1089, 1090, 32,
      1087, 1086, 1089, 1090, 1072, 58]"

text \<open>\<^verbatim>\<open>"\u041e\u0442\u043f\u0440\u0430\u0432\u044c \u0444\u043e\u0442\u043e/\u0432\u0438\u0434\u0435\u043e \u0438\u043b\u0438 \u043d\u0430\u043f\u0438\u0448\u0438 '\u043d\u0435\u0442':"\<close>\<close>

definition msg_ask_media :: pystr where
  "msg_ask_media =
     [1054, 1090, 1087, 1088, 1072, 1074, 1100, 32, 1092, 1086, 1090, 1086, 47, 1074,
      1080, 1076, 1077, 1086, 32, 1080, 1083, 1080, 32, 1085, 1072, 1087, 1080, 1096,
      1080, 32, 39, 1085, 1077, 1090, 39, 58]"

text \<open>\<^verbatim>\<open>"\u0425\u043e\u0447\u0435\u0448\u044c \u043a\u043d\u043e\u043f\u043a\u0443? \u041d\u0430\u043f\u0438\u0448\u0438: \u0422\u0435\u043a\u0441\u0442 | https://\u0441\u0441\u044b\u043b\u043a\u0430 \u0438\u043b\u0438 '\u043d\u0435\u0442'"\<close>\<close>

definition msg_ask_button :: pystr where
  "msg_ask_button =
     [1061, 1086, 1095, 1077, 1096, 1100, 32, 1082, 1085, 1086, 1087, 1082, 1091, 63,
      32, 1053, 1072, 1087, 1080, 1096, 1080, 58, 32, 1058, 1077, 1082, 1089, 1090, 32,
      124, 32, 104, 116, 116, 112, 115, 58, 47, 47, 1089, 1089, 1099, 1083, 1082, 1072,
      32, 1080, 1083, 1080, 32, 39, 1085, 1077, 1090, 39]"

text \<open>\<^verbatim>\<open>"\u041d\u0435\u0432\u0435\u0440\u043d\u044b\u0439 \u0444\u043e\u0440\u043c\u0430\u0442. \u041f\u043e\u043f\u0440\u043e\u0431\u0443\u0439 \u0441\u043d\u043e\u0432\u0430 \u0438\u043b\u0438 \u043d\u0430\u043f\u0438\u0448\u0438 '\u043d\u0435\u0442'"\<close>\<close>

definition msg_bad_format :: pystr where
  "msg_bad_format =
     [1053, 1077, 1074, 1077, 1088, 1085, 1099, 1081, 32, 1092, 1086, 1088, 1084, 1072,
      1090, 46, 32, 1055, 1086, 1087, 1088, 1086, 1073, 1091, 1081, 32, 1089, 1085,
      1086, 1074, 1072, 32, 1080, 1083, 1080, 32, 1085, 1072, 1087, 1080, 1096, 1080,
      32, 39, 1085, 1077, 1090, 39]"

text \<open>\<^verbatim>\<open>"\u041e\u043f\u0443\u0431\u043b\u0438\u043a\u043e\u0432\u0430\u0442\u044c \u0432 \u043a\u0430\u043d\u0430\u043b?"\<close>\<close>

definition msg_ask_confirm :: pystr where
  "msg_ask_confirm =
     [1054, 1087, 1091, 1073, 1083, 1080, 1082, 1086, 1074, 1072, 1090, 1100, 32, 1074,
      32, 1082, 1072, 1085, 1072, 1083, 63]"

text \<open>\<^verbatim>\<open>"\u2705 \u041f\u043e\u0441\u0442 \u043e\u043f\u0443\u0431\u043b\u0438\u043a\u043e\u0432\u0430\u043d!"\<close>\<close>

definition msg_published :: pystr where
  "msg_published =
     [9989, 32, 1055, 1086, 1089, 1090, 32, 1086, 1087, 1091, 1073, 1083, 1080, 1082,
      1086, 1074, 1072, 1085, 33]"

text \<open>\<^verbatim>\<open>"\u274c \u041e\u0448\u0438\u0431\u043a\u0430 \u043f\u0443\u0431\u043b\u0438\u043a\u0430\u0446\u0438\u0438: "\<close>\<close>

definition msg_publish_error :: pystr where
  "msg_publish_error =
     [10060, 32, 1054, 1096, 1080, 1073, 1082, 1072, 32, 1087, 1091, 1073, 1083, 1080,
      1082, 1072, 1094, 1080, 1080, 58, 32]"

text \<open>\<^verbatim>\<open>"\u274c \u041f\u0443\u0431\u043b\u0438\u043a\u0430\u0446\u0438\u044f \u043e\u0442\u043c\u0435\u043d\u0435\u043d\u0430."\<close>\<close>

definition msg_cancelled :: pystr where
  "msg_cancelled =
     [10060, 32, 1055, 1091, 1073, 1083, 1080, 1082, 1072, 1094, 1080, 1103, 32, 1086,
      1090, 1084, 1077, 1085, 1077, 1085, 1072, 46]"

section \<open>Messages, sessions and outcomes\<close>

text \<open>
  The fields of an aiogram \<^verbatim>\<open>Message\<close> that the handlers read. \<open>m_photo\<close> holds the
  \<^verbatim>\<open>file_id\<close>s of the photo sizes, \<open>m_video\<close> the \<^verbatim>\<open>file_id\<close> of the video;
  \<open>m_text\<close> is \<open>None\<close> for a message without text. \<open>m_html_text\<close> is the
  library's rendering of the text with its entities.
\<close>

record message =
  m_from_user_id :: int
  m_chat_id :: int
  m_text :: "pystr option"
  m_html_text :: pystr
  m_photo :: "pystr list option"
  m_video :: "pystr option"

text \<open>A \<^verbatim>\<open>CallbackQuery\<close>: who pressed, in which chat the menu was, and its data.\<close>

record callback_query =
  cb_from_user_id :: int
  cb_chat_id :: int
  cb_data :: "pystr option"

text \<open>\<^verbatim>\<open>class PostForm(StatesGroup)\<close>. The state \<open>None\<close> of a session is the idle one.\<close>

datatype PostForm = PostForm_set_channel | PostForm_text | PostForm_media | PostForm_button

text \<open>
  What an \<^verbatim>\<open>FSMContext\<close> gives a handler: the state and the data dictionary of the
  operator's session in \<^verbatim>\<open>MemoryStorage\<close>.
\<close>

record session =
  fsm_state :: "PostForm option"
  fsm_data :: "string \<rightharpoonup> pystr option"

definition set_state :: "PostForm \<Rightarrow> session \<Rightarrow> session" where
  "set_state st s = s\<lparr>fsm_state := Some st\<rparr>"

definition update_data :: "string \<Rightarrow> pystr option \<Rightarrow> session \<Rightarrow> session" where
  "update_data k v s = s\<lparr>fsm_data := (fsm_data s)(k \<mapsto> v)\<rparr>"

definition clear :: "session \<Rightarrow> session" where
  "clear s = s\<lparr>fsm_state := None, fsm_data := Map.empty\<rparr>"

text \<open>Inline keyboards: a button carries its text and either callback data or a URL.\<close>

datatype button = CallbackButton pystr pystr | UrlButton pystr pystr

type_synonym markup = "button list list"

definition main_menu :: markup where
  "main_menu =
     [[CallbackButton label_set_channel (cp ''set_channel'')],
      [CallbackButton label_new_post (cp ''new_post'')]]"

definition confirm_menu :: markup where
  "confirm_menu =
     [[CallbackButton label_confirm_yes (cp ''confirm_yes'')],
      [CallbackButton label_confirm_no (cp ''confirm_no'')]]"

text \<open>
  The two lines \<^verbatim>\<open>kb = None; if button_text and button_url: kb = ...\<close>, which
  \<^verbatim>\<open>get_button\<close> and \<^verbatim>\<open>cb_confirm_yes\<close> both have.
\<close>

fun url_keyboard :: "pystr option \<Rightarrow> pystr option \<Rightarrow> markup option" where
  "url_keyboard (Some t) (Some u) = (if t \<noteq> [] \<and> u \<noteq> [] then Some [[UrlButton t u]] else None)"
| "url_keyboard _ _ = None"

text \<open>
  What the bot sends. A chat is the numeric id of the operator's chat or the stored
  channel reference. \<^verbatim>\<open>message.answer(text, reply_markup)\<close> is a \<open>SendMessage\<close> to
  the chat of the message; \<open>AnswerCallback\<close> is \<^verbatim>\<open>callback.answer()\<close>.
\<close>

datatype chat = ChatId int | ChatRef pystr

datatype action =
    SendMessage chat "pystr option" "markup option"
  | SendPhoto chat "pystr option" "pystr option" "markup option"
  | AnswerCallback

definition answer :: "message \<Rightarrow> pystr \<Rightarrow> markup option \<Rightarrow> action" where
  "answer m txt kb = SendMessage (ChatId (m_chat_id m)) (Some txt) kb"

definition cb_message_answer :: "callback_query \<Rightarrow> pystr \<Rightarrow> markup option \<Rightarrow> action" where
  "cb_message_answer cb txt kb = SendMessage (ChatId (cb_chat_id cb)) (Some txt) kb"

text \<open>
  The result of running a handler: the database and the session as the handler leaves
  them, the messages that went out, oldest first, and the exception that ended the
  handler, if one did. The handlers of the composition steps record their replies as
  sent. The confirm and the cancel handler, which clear the session after their
  sends, take the transport as a parameter: each of their sends can raise, and a
  raise that nothing catches skips the rest of the handler.
\<close>

record outcome =
  db :: database
  session :: session
  sent :: "action list"
  raised :: "error option"

section \<open>Handlers\<close>

definition start :: "message \<Rightarrow> session \<Rightarrow> database \<Rightarrow> outcome" where
  "start m s d =
     \<lparr>db = d, session = s, sent = [answer m msg_greeting (Some main_menu)], raised = None\<rparr>"

definition cb_set_channel :: "callback_query \<Rightarrow> session \<Rightarrow> database \<Rightarrow> outcome" where
  "cb_set_channel cb s d =
     \<lparr>db = d, session = set_state PostForm_set_channel s,
      sent = [cb_message_answer cb msg_ask_channel None, AnswerCallback], raised = None\<rparr>"

text \<open>\<^verbatim>\<open>message.text.strip()\<close> raises \<^verbatim>\<open>AttributeError\<close> on a message without text.\<close>

definition save_channel_id :: "message \<Rightarrow> session \<Rightarrow> database \<Rightarrow> outcome" where
  "save_channel_id m s d =
     (case m_text m of
        None \<Rightarrow> \<lparr>db = d, session = s, sent = [], raised = Some AttributeError\<rparr>
      | Some t \<Rightarrow>
          (let channel_id = strip t in
           \<lparr>db = set_channel (m_from_user_id m) (Some channel_id) d,
            session = clear s,
            sent = [answer m (msg_linked_prefix @ channel_id @ msg_linked_suffix) (Some main_menu)],
            raised = None\<rparr>))"

text \<open>The early \<^verbatim>\<open>return\<close> of the guard leaves the state and skips \<^verbatim>\<open>callback.answer()\<close>.\<close>

definition cb_new_post :: "callback_query \<Rightarrow> session \<Rightarrow> database \<Rightarrow> outcome" where
  "cb_new_post cb s d =
     (let channel = get_channel (cb_from_user_id cb) d in
      if \<not> truthy channel
      then \<lparr>db = d, session = s, sent = [cb_message_answer cb msg_need_channel None], raised = None\<rparr>
      else \<lparr>db = d, session = set_state PostForm_text s,
            sent = [cb_message_answer cb msg_ask_text None, AnswerCallback], raised = None\<rparr>)"

definition get_text :: "message \<Rightarrow> session \<Rightarrow> database \<Rightarrow> outcome" where
  "get_text m s d =
     \<lparr>db = d,
      session = set_state PostForm_media (update_data ''text'' (Some (m_html_text m)) s),
      sent = [answer m msg_ask_media None], raised = None\<rparr>"

text \<open>
  The chain \<^verbatim>\<open>if message.photo / elif message.video / elif message.text.lower() == ...\<close>
  has no \<^verbatim>\<open>else\<close> and no \<^verbatim>\<open>return\<close>: whatever branch is taken, the three
  statements after it run. A photo list is true when it is not empty, and its last
  size is taken; a video object is true when it is there.
\<close>

definition get_media :: "message \<Rightarrow> session \<Rightarrow> database \<Rightarrow> outcome" where
  "get_media m s d =
     (case (case m_photo m of
              Some (p # ps) \<Rightarrow> Inr (Some (last (p # ps)))
            | _ \<Rightarrow>
                (case m_video m of
                   Some v \<Rightarrow> Inr (Some v)
                 | None \<Rightarrow>
                     (case m_text m of
                        None \<Rightarrow> Inl AttributeError
                      | Some t \<Rightarrow> if lower t = lit_net then Inr None else Inr None))) of
        Inl e \<Rightarrow> \<lparr>db = d, session = s, sent = [], raised = Some e\<rparr>
      | Inr media_id \<Rightarrow>
          \<lparr>db = d,
           session = set_state PostForm_button (update_data ''media'' media_id s),
           sent = [answer m msg_ask_button None], raised = None\<rparr>)"

text \<open>
  \<^verbatim>\<open>get_button\<close>. The \<^verbatim>\<open>try\<close> catches the \<^verbatim>\<open>ValueError\<close> of the unpacking, answers
  and returns. Otherwise the two button fields go into the session, \<^verbatim>\<open>data["text"]\<close>
  and \<^verbatim>\<open>data["media"]\<close> are read (\<^verbatim>\<open>KeyError\<close> when the key is missing), the draft
  is saved, the preview and the confirmation menu are sent. The handler never calls
  \<^verbatim>\<open>set_state\<close>.
\<close>

definition get_button :: "message \<Rightarrow> session \<Rightarrow> database \<Rightarrow> outcome" where
  "get_button m s d =
     (case m_text m of
        None \<Rightarrow> \<lparr>db = d, session = s, sent = [], raised = Some AttributeError\<rparr>
      | Some t \<Rightarrow>
          (case (if lower t \<noteq> lit_net
                 then (case unpack2 (split1 bar t) of
                         Inl e \<Rightarrow> Inl e
                       | Inr (button_text, button_url) \<Rightarrow>
                           Inr (Some (strip button_text), Some (strip button_url)))
                 else Inr (None, None)) of
             Inl e \<Rightarrow>
               (if e = ValueError
                then \<lparr>db = d, session = s, sent = [answer m msg_bad_format None], raised = None\<rparr>
                else \<lparr>db = d, session = s, sent = [], raised = Some e\<rparr>)
           | Inr (button_text, button_url) \<Rightarrow>
               (let s' = update_data ''button_url'' button_url
                           (update_data ''button_text'' button_text s)
                in case fsm_data s' ''text'' of
                     None \<Rightarrow> \<lparr>db = d, session = s', sent = [], raised = Some KeyError\<rparr>
                   | Some txt \<Rightarrow>
                       (case fsm_data s' ''media'' of
                          None \<Rightarrow> \<lparr>db = d, session = s', sent = [], raised = Some KeyError\<rparr>
                        | Some media \<Rightarrow>
                            (let kb = url_keyboard button_text button_url in
                             \<lparr>db = save_post (m_from_user_id m) txt media button_text button_url d,
                              session = s',
                              sent =
                                [if truthy media
                                 then SendPhoto (ChatId (m_chat_id m)) media txt kb
                                 else SendMessage (ChatId (m_chat_id m)) txt kb,
                                 answer m msg_ask_confirm (Some confirm_menu)],
                              raised = None\<rparr>)))))"

text \<open>
  The send inside the \<^verbatim>\<open>try\<close> of \<^verbatim>\<open>cb_confirm_yes\<close>: a photo with caption when the
  draft has media, a text message otherwise, to the linked channel.
\<close>

definition channel_send :: "pystr \<Rightarrow> post \<Rightarrow> action" where
  "channel_send channel p =
     (case p of (txt, media, button_text, button_url) \<Rightarrow>
        (let kb = url_keyboard button_text button_url in
         if truthy media then SendPhoto (ChatRef channel) media txt kb
         else SendMessage (ChatRef channel) txt kb))"

text \<open>
  \<^verbatim>\<open>cb_confirm_yes\<close>. \<open>deliver\<close> is the transport: \<open>None\<close> when a send goes
  through, \<open>Some cause\<close> when it raises an exception whose text is \<open>cause\<close>.
  \<open>tried\<close> is the \<^verbatim>\<open>try\<close> body, the send to the channel and the reply that the post
  is published: the sends that went through and the exception that ended it.
  \<open>block\<close> adds the \<^verbatim>\<open>except Exception as e\<close>: the report to the operator is
  itself a send, outside any \<^verbatim>\<open>try\<close>. \<^verbatim>\<open>if post and channel\<close> has no \<^verbatim>\<open>else\<close>.
  \<^verbatim>\<open>state.clear()\<close> and \<^verbatim>\<open>callback.answer()\<close> come after the block, so an exception
  that leaves the block skips both.
\<close>

definition cb_confirm_yes ::
  "(action \<Rightarrow> pystr option) \<Rightarrow> callback_query \<Rightarrow> session \<Rightarrow> database \<Rightarrow> outcome"
where
  "cb_confirm_yes deliver cb s d =
     (let post = get_post (cb_from_user_id cb) d;
          channel = get_channel (cb_from_user_id cb) d;
          block =
            (case post of
               None \<Rightarrow> ([], None)
             | Some p \<Rightarrow>
                 (case channel of
                    None \<Rightarrow> ([], None)
                  | Some ch \<Rightarrow>
                      if ch = [] then ([], None)
                      else
                        (let tried =
                           (case deliver (channel_send ch p) of
                              Some e \<Rightarrow> ([], Some e)
                            | None \<Rightarrow>
                                (case deliver (cb_message_answer cb msg_published (Some main_menu)) of
                                   Some e \<Rightarrow> ([channel_send ch p], Some e)
                                 | None \<Rightarrow>
                                     ([channel_send ch p,
                                       cb_message_answer cb msg_published (Some main_menu)],
                                      None)))
                         in case snd tried of
                              None \<Rightarrow> (fst tried, None)
                            | Some e \<Rightarrow>
                                (case deliver (cb_message_answer cb (msg_publish_error @ e)
                                                 (Some main_menu)) of
                                   None \<Rightarrow>
                                     (fst tried
                                        @ [cb_message_answer cb (msg_publish_error @ e)
                                             (Some main_menu)],
                                      None)
                                 | Some e' \<Rightarrow> (fst tried, Some e')))))
      in case snd block of
           Some e \<Rightarrow> \<lparr>db = d, session = s, sent = fst block, raised = Some (TransportError e)\<rparr>
         | None \<Rightarrow>
             (case deliver AnswerCallback of
                None \<Rightarrow>
                  \<lparr>db = d, session = clear s, sent = fst block @ [AnswerCallback], raised = None\<rparr>
              | Some e \<Rightarrow>
                  \<lparr>db = d, session = clear s, sent = fst block,
                   raised = Some (TransportError e)\<rparr>))"

text \<open>
  \<^verbatim>\<open>cb_confirm_no\<close>: the cancellation is sent, then the session is cleared, then the
  callback is acknowledged.
\<close>

definition cb_confirm_no ::
  "(action \<Rightarrow> pystr option) \<Rightarrow> callback_query \<Rightarrow> session \<Rightarrow> database \<Rightarrow> outcome"
where
  "cb_confirm_no deliver cb s d =
     (case deliver (cb_message_answer cb msg_cancelled (Some main_menu)) of
        Some e \<Rightarrow> \<lparr>db = d, session = s, sent = [], raised = Some (TransportError e)\<rparr>
      | None \<Rightarrow>
          (case deliver AnswerCallback of
             None \<Rightarrow>
               \<lparr>db = d, session = clear s,
                sent = [cb_message_answer cb msg_cancelled (Some main_menu), AnswerCallback],
                raised = None\<rparr>
           | Some e \<Rightarrow>
               \<lparr>db = d, session = clear s,
                sent = [cb_message_answer cb msg_cancelled (Some main_menu)],
                raised = Some (TransportError e)\<rparr>))"

text \<open>
  The callback handlers in the order of their registration, each filtered by
  \<^verbatim>\<open>F.data == ...\<close> and by nothing else; a callback that no filter accepts is
  dropped.
\<close>

definition dispatch_callback_query ::
  "(action \<Rightarrow> pystr option) \<Rightarrow> callback_query \<Rightarrow> session \<Rightarrow> database \<Rightarrow> outcome"
where
  "dispatch_callback_query deliver cb s d =
     (if cb_data cb = Some (cp ''set_channel'') then cb_set_channel cb s d
      else if cb_data cb = Some (cp ''new_post'') then cb_new_post cb s d
      else if cb_data cb = Some (cp ''confirm_yes'') then cb_confirm_yes deliver cb s d
      else if cb_data cb = Some (cp ''confirm_no'') then cb_confirm_no deliver cb s d
      else \<lparr>db = d, session = s, sent = [], raised = None\<rparr>)"

section \<open>Values for the scenarios\<close>

text \<open>
  Operator 7 writes in the private chat 7: a text message, a pressed menu button, the
  session as \<^verbatim>\<open>get_text\<close> leaves it after the text \<^verbatim>\<open>Hello\<close>, the session as
  \<^verbatim>\<open>get_media\<close> leaves it after that, a store in which the operator has linked
  \<^verbatim>\<open>@mychannel\<close>, and that store with a draft of the operator.
\<close>

definition text_message :: "pystr \<Rightarrow> message" where
  "text_message t =
     \<lparr>m_from_user_id = 7, m_chat_id = 7, m_text = Some t, m_html_text = t,
      m_photo = None, m_video = None\<rparr>"

definition pressed :: "string \<Rightarrow> callback_query" where
  "pressed name = \<lparr>cb_from_user_id = 7, cb_chat_id = 7, cb_data = Some (cp name)\<rparr>"

definition at_media :: session where
  "at_media =
     \<lparr>fsm_state = Some PostForm_media, fsm_data = [''text'' \<mapsto> Some (cp ''Hello'')]\<rparr>"

definition at_button :: session where
  "at_button =
     \<lparr>fsm_state = Some PostForm_button,
      fsm_data = [''text'' \<mapsto> Some (cp ''Hello''), ''media'' \<mapsto> None]\<rparr>"

definition linked :: database where
  "linked = set_channel 7 (Some (cp ''@mychannel'')) (init_db None)"

definition drafted :: database where
  "drafted = save_post 7 (Some (cp ''Hello'')) None None None linked"

text \<open>
  Two transports. With \<open>channel_unreachable\<close> every send to a channel raises
  \<^verbatim>\<open>Forbidden\<close> and everything else goes through; with \<open>network_down\<close> every send
  raises \<^verbatim>\<open>Timeout\<close>.
\<close>

fun channel_unreachable :: "action \<Rightarrow> pystr option" where
  "channel_unreachable (SendMessage (ChatRef c) t kb) = Some (cp ''Forbidden'')"
| "channel_unreachable (SendPhoto (ChatRef c) ph t kb) = Some (cp ''Forbidden'')"
| "channel_unreachable a = None"

definition network_down :: "action \<Rightarrow> pystr option" where
  "network_down a = Some (cp ''Timeout'')"

section \<open>Store properties\<close>

lemma filter_same_key_after_delete:
  "filter (\<lambda>r. fst r = u) (filter (\<lambda>r. fst r \<noteq> u) rows) = []"
  by (induction rows) auto

lemma filter_other_key_after_delete:
  "v \<noteq> u \<Longrightarrow>
     filter (\<lambda>r. fst r = v) (filter (\<lambda>r. fst r \<noteq> u) rows) = filter (\<lambda>r. fst r = v) rows"
  by (induction rows) auto

lemma get_post_save_post:
  "get_post u (save_post u t m bt bu d) = Some (t, m, bt, bu)"
  by (simp add: get_post_def save_post_def filter_same_key_after_delete del: filter_filter)

lemma drafts_of_save_post_same:
  "drafts_of u (save_post u t m bt bu d) = 1"
  by (simp add: drafts_of_def save_post_def filter_same_key_after_delete del: filter_filter)

lemma drafts_of_save_post_other:
  "v \<noteq> u \<Longrightarrow> drafts_of v (save_post u t m bt bu d) = drafts_of v d"
  by (simp add: drafts_of_def save_post_def filter_other_key_after_delete del: filter_filter)

lemma drafts_of_set_channel:
  "drafts_of v (set_channel u c d) = drafts_of v d"
  by (simp add: drafts_of_def set_channel_def)

lemma get_channel_set_channel:
  "get_channel u (set_channel u c d) = c"
  by (simp add: get_channel_def set_channel_def filter_same_key_after_delete del: filter_filter)

lemma links_of_set_channel_same:
  "links_of u (set_channel u c d) = 1"
  by (simp add: links_of_def set_channel_def filter_same_key_after_delete del: filter_filter)

lemma links_of_set_channel_other:
  "v \<noteq> u \<Longrightarrow> links_of v (set_channel u c d) = links_of v d"
  by (simp add: links_of_def set_channel_def filter_other_key_after_delete del: filter_filter)

lemma links_of_save_post:
  "links_of v (save_post u t m bt bu d) = links_of v d"
  by (simp add: links_of_def save_post_def)

lemma drafts_of_apply_call_le:
  "drafts_of v d \<le> 1 \<Longrightarrow> drafts_of v (apply_call c d) \<le> 1"
proof (cases c)
  case (SetChannel u ch)
  assume "drafts_of v d \<le> 1"
  with SetChannel show ?thesis by (simp add: drafts_of_set_channel)
next
  case (SavePost u t m bt bu)
  assume le: "drafts_of v d \<le> 1"
  show ?thesis
  proof (cases "v = u")
    case True
    with SavePost show ?thesis by (simp add: drafts_of_save_post_same)
  next
    case False
    with SavePost le show ?thesis by (simp add: drafts_of_save_post_other)
  qed
qed

lemma links_of_apply_call_le:
  "links_of v d \<le> 1 \<Longrightarrow> links_of v (apply_call c d) \<le> 1"
proof (cases c)
  case (SavePost u t m bt bu)
  assume "links_of v d \<le> 1"
  with SavePost show ?thesis by (simp add: links_of_save_post)
next
  case (SetChannel u ch)
  assume le: "links_of v d \<le> 1"
  show ?thesis
  proof (cases "v = u")
    case True
    with SetChannel show ?thesis by (simp add: links_of_set_channel_same)
  next
    case False
    with SetChannel le show ?thesis by (simp add: links_of_set_channel_other)
  qed
qed

lemma drafts_of_apply_calls_le:
  "drafts_of v d \<le> 1 \<Longrightarrow> drafts_of v (apply_calls cs d) \<le> 1"
proof (induction cs arbitrary: d)
  case Nil
  then show ?case by simp
next
  case (Cons c cs)
  from Cons.prems have "drafts_of v (apply_call c d) \<le> 1"
    by (rule drafts_of_apply_call_le)
  then have "drafts_of v (apply_calls cs (apply_call c d)) \<le> 1"
    by (rule Cons.IH)
  then show ?case by simp
qed

lemma links_of_apply_calls_le:
  "links_of v d \<le> 1 \<Longrightarrow> links_of v (apply_calls cs d) \<le> 1"
proof (induction cs arbitrary: d)
  case Nil
  then show ?case by simp
next
  case (Cons c cs)
  from Cons.prems have "links_of v (apply_call c d) \<le> 1"
    by (rule links_of_apply_call_le)
  then have "links_of v (apply_calls cs (apply_call c d)) \<le> 1"
    by (rule Cons.IH)
  then show ?case by simp
qed

lemma drafts_of_init_db: "drafts_of v (init_db None) \<le> 1"
  by (simp add: drafts_of_def)

lemma links_of_init_db: "links_of v (init_db None) \<le> 1"
  by (simp add: links_of_def)

text \<open>
  C5. After \<^verbatim>\<open>save_post\<close> has been called twice in succession for an operator,
  \<^verbatim>\<open>get_post\<close> returns exactly the second draft: the first one is overwritten, the
  operator has one draft row, and in every store that the program can build from the
  tables of \<^verbatim>\<open>init_db\<close> no operator has more than one draft row.
\<close>

theorem save_post_twice_overwrites:
  "get_post u (save_post u t2 m2 bt2 bu2 (save_post u t1 m1 bt1 bu1 d)) = Some (t2, m2, bt2, bu2)
   \<and> drafts_of u (save_post u t2 m2 bt2 bu2 (save_post u t1 m1 bt1 bu1 d)) = 1
   \<and> drafts_of v (apply_calls cs (init_db None)) \<le> 1"
proof -
  have "drafts_of v (apply_calls cs (init_db None)) \<le> 1"
    by (rule drafts_of_apply_calls_le) (rule drafts_of_init_db)
  then show ?thesis
    by (simp add: get_post_save_post drafts_of_save_post_same)
qed

text \<open>
  C8. An operator has at most one channel link at any time (in every store built from
  the tables of \<^verbatim>\<open>init_db\<close>), and a later \<^verbatim>\<open>set_channel\<close> overwrites the earlier
  link: \<^verbatim>\<open>get_channel\<close> returns the reference that was set last.
\<close>

theorem set_channel_upsert:
  "links_of v (apply_calls cs (init_db None)) \<le> 1
   \<and> get_channel u (set_channel u c2 (set_channel u c1 d)) = c2
   \<and> links_of u (set_channel u c2 (set_channel u c1 d)) = 1"
proof -
  have "links_of v (apply_calls cs (init_db None)) \<le> 1"
    by (rule links_of_apply_calls_le) (rule links_of_init_db)
  then show ?thesis
    by (simp add: get_channel_set_channel links_of_set_channel_same)
qed

section \<open>String lemmas\<close>





lemma split1_without_sep:
  assumes "sep \<notin> set t"
  shows "split1 sep t = [t]"
proof -
  have none: "dropWhile (\<lambda>c. c \<noteq> sep) t = []"
    using assms by auto
  show ?thesis
    unfolding split1_def none by simp
qed

section \<open>Handler properties\<close>

lemma clear_eq: "clear s = \<lparr>fsm_state = None, fsm_data = Map.empty\<rparr>"
  by (simp add: clear_def)

text \<open>
  The whole composition on the scenario of the specification: the text \<^verbatim>\<open>Hello\<close>, the
  refusal word at the media step, \<^verbatim>\<open>nolinkhere\<close> and then the refusal word at the
  button step. The draft is saved with both button fields absent.
\<close>

lemma scenario_without_button:
  "session (get_text (text_message (cp ''Hello'')) \<lparr>fsm_state = Some PostForm_text, fsm_data = Map.empty\<rparr> linked)
     = at_media
   \<and> session (get_media (text_message lit_net) at_media linked) = at_button
   \<and> session (get_button (text_message (cp ''nolinkhere'')) at_button linked) = at_button
   \<and> get_post 7 (db (get_button (text_message lit_net) at_button linked))
       = Some (Some (cp ''Hello''), None, None, None)"
  by (simp add: get_text_def get_media_def get_button_def text_message_def at_media_def
      at_button_def set_state_def update_data_def cp_def lower_def lower_cp_def lit_net_def
      split1_def bar_def get_post_save_post fun_eq_iff)




text \<open>
  \<^verbatim>\<open>cb_confirm_yes\<close> writes nothing to the store, whatever the transport does.
\<close>

lemma cb_confirm_yes_keeps_store: "db (cb_confirm_yes deliver cb s d) = d"
  by (simp add: cb_confirm_yes_def Let_def split: option.splits)

text \<open>
  C2, as the code has it. A confirmation with a stored draft and a linked channel
  whose send to the channel fails with \<open>cause\<close>, and whose report to the operator goes
  through: the operator is sent the failure text followed by the cause, the session
  is cleared, as it is when every send goes through, and the store with the
  operator's draft is as it was. The store is as it was under every transport.
\<close>

theorem cb_confirm_yes_publish_failure:
  assumes "get_post (cb_from_user_id cb) d = Some p"
    and "get_channel (cb_from_user_id cb) d = Some ch" and "ch \<noteq> []"
    and "deliver (channel_send ch p) = Some cause"
    and "deliver (SendMessage (ChatId (cb_chat_id cb)) (Some (msg_publish_error @ cause))
                   (Some main_menu)) = None"
  shows "cb_confirm_yes deliver cb s d =
           \<lparr>db = d, session = \<lparr>fsm_state = None, fsm_data = Map.empty\<rparr>,
            sent = SendMessage (ChatId (cb_chat_id cb)) (Some (msg_publish_error @ cause))
                     (Some main_menu)
                   # (case deliver AnswerCallback of None \<Rightarrow> [AnswerCallback] | Some e \<Rightarrow> []),
            raised = map_option TransportError (deliver AnswerCallback)\<rparr>
         \<and> session (cb_confirm_yes deliver cb s d) = session (cb_confirm_yes (\<lambda>a. None) cb s d)
         \<and> get_post (cb_from_user_id cb) (db (cb_confirm_yes deliver cb s d)) = Some p
         \<and> db (cb_confirm_yes deliver' cb s d) = d"
proof -
  have out: "cb_confirm_yes deliver cb s d =
           \<lparr>db = d, session = \<lparr>fsm_state = None, fsm_data = Map.empty\<rparr>,
            sent = SendMessage (ChatId (cb_chat_id cb)) (Some (msg_publish_error @ cause))
                     (Some main_menu)
                   # (case deliver AnswerCallback of None \<Rightarrow> [AnswerCallback] | Some e \<Rightarrow> []),
            raised = map_option TransportError (deliver AnswerCallback)\<rparr>"
    using assms
    by (simp add: cb_confirm_yes_def cb_message_answer_def clear_eq Let_def
        split: option.splits)
  have success: "session (cb_confirm_yes (\<lambda>a. None) cb s d)
                   = \<lparr>fsm_state = None, fsm_data = Map.empty\<rparr>"
    by (simp add: cb_confirm_yes_def clear_eq Let_def split: option.splits)
  have store: "db (cb_confirm_yes deliver' cb s d) = d"
    by (rule cb_confirm_yes_keeps_store)
  from assms(1) show ?thesis
    by (simp add: out success store)
qed

theorem cb_confirm_yes_publish_failure_witness:
  "get_post (cb_from_user_id (pressed ''confirm_yes''))
       (save_post 7 (Some (cp ''Hello'')) None None None linked)
     = Some (Some (cp ''Hello''), None, None, None)
   \<and> get_channel (cb_from_user_id (pressed ''confirm_yes''))
       (save_post 7 (Some (cp ''Hello'')) None None None linked) = Some (cp ''@mychannel'')
   \<and> cp ''@mychannel'' \<noteq> []
   \<and> channel_unreachable
        (channel_send (cp ''@mychannel'') (Some (cp ''Hello''), None, None, None))
       = Some (cp ''Forbidden'')
   \<and> channel_unreachable
        (SendMessage (ChatId (cb_chat_id (pressed ''confirm_yes'')))
           (Some (msg_publish_error @ cp ''Forbidden'')) (Some main_menu)) = None
   \<and> cb_confirm_yes channel_unreachable (pressed ''confirm_yes'') at_button
        (save_post 7 (Some (cp ''Hello'')) None None None linked)
     = \<lparr>db = save_post 7 (Some (cp ''Hello'')) None None None linked,
        session = \<lparr>fsm_state = None, fsm_data = Map.empty\<rparr>,
        sent = [SendMessage (ChatId 7) (Some (msg_publish_error @ cp ''Forbidden''))
                  (Some main_menu),
                AnswerCallback],
        raised = None\<rparr>"
proof -
  have u: "cb_from_user_id (pressed ''confirm_yes'') = 7" "cb_chat_id (pressed ''confirm_yes'') = 7"
    by (simp_all add: pressed_def)
  have a: "get_post (cb_from_user_id (pressed ''confirm_yes''))
             (save_post 7 (Some (cp ''Hello'')) None None None linked)
           = Some (Some (cp ''Hello''), None, None, None)"
    by (simp add: u get_post_save_post)
  have b: "get_channel (cb_from_user_id (pressed ''confirm_yes''))
             (save_post 7 (Some (cp ''Hello'')) None None None linked) = Some (cp ''@mychannel'')"
    by (simp add: u get_channel_def save_post_def linked_def set_channel_def)
  have c: "cp ''@mychannel'' \<noteq> []"
    by (simp add: cp_def)
  have e: "channel_unreachable
             (channel_send (cp ''@mychannel'') (Some (cp ''Hello''), None, None, None))
           = Some (cp ''Forbidden'')"
    by (simp add: channel_send_def)
  have f: "channel_unreachable
             (SendMessage (ChatId (cb_chat_id (pressed ''confirm_yes'')))
                (Some (msg_publish_error @ cp ''Forbidden'')) (Some main_menu)) = None"
    by (simp add: u)
  have g: "channel_unreachable AnswerCallback = None"
    by simp
  from cb_confirm_yes_publish_failure [OF a b c e f, of at_button] a b c e f show ?thesis
    by (simp add: u g)
qed

text \<open>
  C2 as the specification states it fails. The network is down: the send to the
  channel raises, and so does the report to the operator inside \<^verbatim>\<open>except\<close>. The
  handler ends there: nothing is sent, and the session is not cleared, it is still in
  \<^verbatim>\<open>PostForm.button\<close> with its data.
\<close>

theorem cb_confirm_yes_report_fails_too:
  "get_post 7 (save_post 7 (Some (cp ''Hello'')) None None None linked)
     = Some (Some (cp ''Hello''), None, None, None)
   \<and> get_channel 7 (save_post 7 (Some (cp ''Hello'')) None None None linked)
     = Some (cp ''@mychannel'')
   \<and> network_down (channel_send (cp ''@mychannel'') (Some (cp ''Hello''), None, None, None))
     = Some (cp ''Timeout'')
   \<and> cb_confirm_yes network_down (pressed ''confirm_yes'') at_button
        (save_post 7 (Some (cp ''Hello'')) None None None linked)
     = \<lparr>db = save_post 7 (Some (cp ''Hello'')) None None None linked,
        session = at_button, sent = [], raised = Some (TransportError (cp ''Timeout''))\<rparr>
   \<and> fsm_state at_button = Some PostForm_button"
  by (simp add: cb_confirm_yes_def pressed_def get_post_def get_channel_def
      save_post_def linked_def set_channel_def network_down_def at_button_def Let_def
      cp_def)

text \<open>
  What \<^verbatim>\<open>get_media\<close> does with a message that is neither a photo nor a video: with
  any text, the refusal word or not, it stores no media, asks for the button and sets
  the state \<^verbatim>\<open>PostForm.button\<close>; without text, it raises and changes nothing.
\<close>

lemma get_media_text_advances:
  assumes "m_photo m = None \<or> m_photo m = Some []" and "m_video m = None" and "m_text m = Some t"
  shows "get_media m s d =
           \<lparr>db = d, session = set_state PostForm_button (update_data ''media'' None s),
            sent = [answer m msg_ask_button None], raised = None\<rparr>"
  using assms by (auto simp add: get_media_def)

lemma get_media_without_text_raises:
  assumes "m_photo m = None \<or> m_photo m = Some []" and "m_video m = None" and "m_text m = None"
  shows "get_media m s d = \<lparr>db = d, session = s, sent = [], raised = Some AttributeError\<rparr>"
  using assms by (auto simp add: get_media_def)

text \<open>
  C3 on the code. The text \<^verbatim>\<open>hello\<close> at the media step is neither a photo, nor a
  video, nor the refusal word. The session is not left as it was: the handler stores
  the media as absent, asks for the button and moves the state from
  \<^verbatim>\<open>PostForm.media\<close> to \<^verbatim>\<open>PostForm.button\<close>.
\<close>

theorem get_media_other_text_advances:
  "lower (cp ''hello'') \<noteq> lit_net
   \<and> m_photo (text_message (cp ''hello'')) = None \<and> m_video (text_message (cp ''hello'')) = None
   \<and> fsm_state at_media = Some PostForm_media
   \<and> session (get_media (text_message (cp ''hello'')) at_media linked) \<noteq> at_media
   \<and> get_media (text_message (cp ''hello'')) at_media linked =
       \<lparr>db = linked, session = at_button,
        sent = [SendMessage (ChatId 7) (Some msg_ask_button) None], raised = None\<rparr>"
  by (simp add: get_media_def text_message_def at_media_def at_button_def set_state_def
      update_data_def answer_def cp_def lower_def lit_net_def fun_eq_iff)

text \<open>
  C4. A text at the button step that has no delimiter and is not the refusal word in any
  letter case: the operator is sent the format message again, and the store and the
  session, its state and its text and media, are what they were. No draft is saved.
\<close>

theorem get_button_without_delimiter_reprompts:
  assumes "m_text m = Some t" and "bar \<notin> set t" and "lower t \<noteq> lit_net"
  shows "get_button m s d =
           \<lparr>db = d, session = s, sent = [answer m msg_bad_format None], raised = None\<rparr>"
  using assms by (simp add: get_button_def split1_without_sep)

theorem get_button_without_delimiter_witness:
  "m_text (text_message (cp ''nolinkhere'')) = Some (cp ''nolinkhere'')
   \<and> bar \<notin> set (cp ''nolinkhere'') \<and> lower (cp ''nolinkhere'') \<noteq> lit_net
   \<and> get_button (text_message (cp ''nolinkhere'')) at_button linked =
       \<lparr>db = linked, session = at_button,
        sent = [SendMessage (ChatId 7) (Some msg_bad_format) None], raised = None\<rparr>"
proof -
  have a: "m_text (text_message (cp ''nolinkhere'')) = Some (cp ''nolinkhere'')"
    by (simp add: text_message_def)
  have b: "bar \<notin> set (cp ''nolinkhere'')"
    by (simp add: cp_def bar_def)
  have c: "lower (cp ''nolinkhere'') \<noteq> lit_net"
    by (simp add: cp_def lower_def lit_net_def)
  have d: "answer (text_message (cp ''nolinkhere'')) msg_bad_format None
             = SendMessage (ChatId 7) (Some msg_bad_format) None"
    by (simp add: answer_def text_message_def)
  from get_button_without_delimiter_reprompts [OF a b c, of at_button linked] a b c
  show ?thesis
    by (simp add: d)
qed

text \<open>
  C6. The new-post button pressed by an operator who has no linked channel: the
  guidance message is the only thing sent, the session is what it was (an idle session
  stays idle), and the store, its drafts included, is what it was.
\<close>

theorem cb_new_post_without_channel:
  assumes "get_channel (cb_from_user_id cb) d = None"
  shows "cb_new_post cb s d =
           \<lparr>db = d, session = s,
            sent = [SendMessage (ChatId (cb_chat_id cb)) (Some msg_need_channel) None],
            raised = None\<rparr>"
  using assms by (simp add: cb_new_post_def cb_message_answer_def)

theorem cb_new_post_without_channel_witness:
  "get_channel (cb_from_user_id (pressed ''new_post'')) (init_db None) = None
   \<and> cb_new_post (pressed ''new_post'') \<lparr>fsm_state = None, fsm_data = Map.empty\<rparr> (init_db None) =
       \<lparr>db = init_db None, session = \<lparr>fsm_state = None, fsm_data = Map.empty\<rparr>,
        sent = [SendMessage (ChatId 7) (Some msg_need_channel) None], raised = None\<rparr>"
proof -
  have a: "get_channel (cb_from_user_id (pressed ''new_post'')) (init_db None) = None"
    by (simp add: get_channel_def)
  have b: "cb_chat_id (pressed ''new_post'') = 7"
    by (simp add: pressed_def)
  from cb_new_post_without_channel [OF a, of "\<lparr>fsm_state = None, fsm_data = Map.empty\<rparr>"] a
  show ?thesis
    by (simp add: b)
qed

text \<open>
  A confirmation without a stored draft, or without a channel reference that is true,
  when the acknowledgement goes through: nothing goes to the operator but the
  acknowledgement of the callback, and the session is cleared.
\<close>

lemma cb_confirm_yes_without_prerequisite:
  assumes "get_post (cb_from_user_id cb) d = None \<or> \<not> truthy (get_channel (cb_from_user_id cb) d)"
    and "deliver AnswerCallback = None"
  shows "cb_confirm_yes deliver cb s d =
           \<lparr>db = d, session = \<lparr>fsm_state = None, fsm_data = Map.empty\<rparr>,
            sent = [AnswerCallback], raised = None\<rparr>"
  using assms
  by (cases "get_channel (cb_from_user_id cb) d")
     (auto simp add: cb_confirm_yes_def clear_eq Let_def split: option.splits)

text \<open>
  C7 on the code. The operator has linked \<^verbatim>\<open>@mychannel\<close> and has no draft, and presses
  the confirm button: no message is sent to the operator, only the callback is
  acknowledged, and the session is cleared.
\<close>

theorem cb_confirm_yes_without_draft_is_silent:
  "get_channel 7 linked = Some (cp ''@mychannel'') \<and> get_post 7 linked = None
   \<and> cb_confirm_yes (\<lambda>a. None) (pressed ''confirm_yes'') at_button linked =
       \<lparr>db = linked, session = \<lparr>fsm_state = None, fsm_data = Map.empty\<rparr>,
        sent = [AnswerCallback], raised = None\<rparr>"
  by (simp add: cb_confirm_yes_def pressed_def linked_def get_post_def get_channel_def
      set_channel_def clear_eq)

text \<open>
  Whatever the message, the session and the store, \<^verbatim>\<open>get_button\<close> either leaves the
  store as it was or saves one draft for the sender, and in that draft the button text
  and the button URL are both \<^verbatim>\<open>None\<close> or both strings. A string may be empty.
\<close>

lemma get_button_fields_both_none_or_both_strings:
  "db (get_button m s d) = d
   \<or> (\<exists>txt media button_text button_url.
         db (get_button m s d) = save_post (m_from_user_id m) txt media button_text button_url d
         \<and> get_post (m_from_user_id m) (db (get_button m s d))
             = Some (txt, media, button_text, button_url)
         \<and> ((button_text = None) = (button_url = None)))"
  by (auto simp add: get_button_def Let_def get_post_save_post
      split: option.splits sum.splits prod.splits if_splits)

text \<open>
  C9 on the code. The \<^verbatim>\<open>try\<close> of \<^verbatim>\<open>get_button\<close> rejects a text without delimiter and
  nothing else: the parts of the split are not checked. \<^verbatim>\<open>Buy |\<close> is saved as the label
  \<^verbatim>\<open>Buy\<close> with the empty string as URL, and \<^verbatim>\<open>| https://example.com\<close> as the empty
  label with the URL. By the handler's own test \<^verbatim>\<open>if button_text and button_url\<close> one
  field of each draft is there and the other is not, and the preview has no button.
\<close>

theorem get_button_saves_one_field_without_the_other:
  "get_post 7 (db (get_button (text_message (cp ''Buy |'')) at_button linked))
     = Some (Some (cp ''Hello''), None, Some (cp ''Buy''), Some [])
   \<and> truthy (Some (cp ''Buy'')) \<and> \<not> truthy (Some [])
   \<and> sent (get_button (text_message (cp ''Buy |'')) at_button linked)
     = [SendMessage (ChatId 7) (Some (cp ''Hello'')) None,
        SendMessage (ChatId 7) (Some msg_ask_confirm) (Some confirm_menu)]
   \<and> get_post 7 (db (get_button (text_message (cp ''| https://example.com'')) at_button linked))
     = Some (Some (cp ''Hello''), None, Some [], Some (cp ''https://example.com''))
   \<and> truthy (Some (cp ''https://example.com''))"
  by (simp add: get_button_def text_message_def at_button_def cp_def lower_def
      lower_cp_def lit_net_def split1_def bar_def update_data_def strip_def isspace_def
      get_post_save_post answer_def)

text \<open>
  Neither the confirm nor the cancel handler reads the session: the store, the sends
  and the exception of an outcome are the same for any two sessions, and the session
  of the outcome is either cleared or the one that came in.
\<close>

lemma cb_confirm_yes_reads_no_session:
  "db (cb_confirm_yes deliver cb s1 d) = db (cb_confirm_yes deliver cb s2 d)
   \<and> sent (cb_confirm_yes deliver cb s1 d) = sent (cb_confirm_yes deliver cb s2 d)
   \<and> raised (cb_confirm_yes deliver cb s1 d) = raised (cb_confirm_yes deliver cb s2 d)
   \<and> (session (cb_confirm_yes deliver cb s1 d) = \<lparr>fsm_state = None, fsm_data = Map.empty\<rparr>
        \<and> session (cb_confirm_yes deliver cb s2 d) = \<lparr>fsm_state = None, fsm_data = Map.empty\<rparr>
       \<or> session (cb_confirm_yes deliver cb s1 d) = s1
        \<and> session (cb_confirm_yes deliver cb s2 d) = s2)"
  by (simp add: cb_confirm_yes_def clear_eq Let_def split: option.splits)

lemma cb_confirm_no_reads_no_session:
  "db (cb_confirm_no deliver cb s1 d) = db (cb_confirm_no deliver cb s2 d)
   \<and> sent (cb_confirm_no deliver cb s1 d) = sent (cb_confirm_no deliver cb s2 d)
   \<and> raised (cb_confirm_no deliver cb s1 d) = raised (cb_confirm_no deliver cb s2 d)
   \<and> (session (cb_confirm_no deliver cb s1 d) = \<lparr>fsm_state = None, fsm_data = Map.empty\<rparr>
        \<and> session (cb_confirm_no deliver cb s2 d) = \<lparr>fsm_state = None, fsm_data = Map.empty\<rparr>
       \<or> session (cb_confirm_no deliver cb s1 d) = s1
        \<and> session (cb_confirm_no deliver cb s2 d) = s2)"
  by (simp add: cb_confirm_no_def clear_eq split: option.splits)

lemma dispatch_confirm_yes:
  "dispatch_callback_query deliver (cb\<lparr>cb_data := Some (cp ''confirm_yes'')\<rparr>) s d
     = cb_confirm_yes deliver (cb\<lparr>cb_data := Some (cp ''confirm_yes'')\<rparr>) s d"
  by (simp add: dispatch_callback_query_def cp_def)

lemma dispatch_confirm_no:
  "dispatch_callback_query deliver (cb\<lparr>cb_data := Some (cp ''confirm_no'')\<rparr>) s d
     = cb_confirm_no deliver (cb\<lparr>cb_data := Some (cp ''confirm_no'')\<rparr>) s d"
  by (simp add: dispatch_callback_query_def cp_def)

text \<open>
  The confirm handler when every message to the operator's chat and the
  acknowledgement go through: with a draft and a channel it tries the send of that
  draft to that channel and reports the result; the session is cleared.
\<close>

lemma cb_confirm_yes_publishes:
  assumes "\<forall>t kb. deliver (SendMessage (ChatId (cb_chat_id cb)) t kb) = None"
    and "deliver AnswerCallback = None"
    and "get_post (cb_from_user_id cb) d = Some p"
    and "get_channel (cb_from_user_id cb) d = Some ch" and "ch \<noteq> []"
  shows "cb_confirm_yes deliver cb s d =
           \<lparr>db = d, session = \<lparr>fsm_state = None, fsm_data = Map.empty\<rparr>,
            sent = (case deliver (channel_send ch p) of
                      None \<Rightarrow>
                        [channel_send ch p,
                         SendMessage (ChatId (cb_chat_id cb)) (Some msg_published) (Some main_menu)]
                    | Some e \<Rightarrow>
                        [SendMessage (ChatId (cb_chat_id cb)) (Some (msg_publish_error @ e))
                           (Some main_menu)])
                   @ [AnswerCallback],
            raised = None\<rparr>"
  using assms
  by (simp add: cb_confirm_yes_def cb_message_answer_def clear_eq Let_def
      split: option.splits)

lemma cb_confirm_no_cancels:
  assumes "\<forall>t kb. deliver (SendMessage (ChatId (cb_chat_id cb)) t kb) = None"
    and "deliver AnswerCallback = None"
  shows "cb_confirm_no deliver cb s d =
           \<lparr>db = d, session = \<lparr>fsm_state = None, fsm_data = Map.empty\<rparr>,
            sent = [SendMessage (ChatId (cb_chat_id cb)) (Some msg_cancelled) (Some main_menu),
                    AnswerCallback],
            raised = None\<rparr>"
  using assms by (simp add: cb_confirm_no_def cb_message_answer_def clear_eq)

text \<open>
  C10, as the code has it. The callback data alone selects the confirm and the cancel
  handler. For any two sessions the store, the sends and the exception of the outcome
  are the same, and the session is cleared in both outcomes or left in both. When the
  messages to the operator's chat and the acknowledgement go through, the confirm
  button has one outcome for all sessions: the session is cleared; with a draft and a
  non-empty channel reference the send of that draft to that channel is tried, and the
  operator is told that the post is published, or the cause of the failure; without a
  draft or channel nothing is published. The cancel button then sends the cancellation
  and clears the session, whatever the session was.
\<close>

theorem confirm_and_cancel_ignore_state:
  "(db (dispatch_callback_query deliver (cb\<lparr>cb_data := Some (cp ''confirm_yes'')\<rparr>) s1 d)
      = db (dispatch_callback_query deliver (cb\<lparr>cb_data := Some (cp ''confirm_yes'')\<rparr>) s2 d)
    \<and> sent (dispatch_callback_query deliver (cb\<lparr>cb_data := Some (cp ''confirm_yes'')\<rparr>) s1 d)
      = sent (dispatch_callback_query deliver (cb\<lparr>cb_data := Some (cp ''confirm_yes'')\<rparr>) s2 d)
    \<and> raised (dispatch_callback_query deliver (cb\<lparr>cb_data := Some (cp ''confirm_yes'')\<rparr>) s1 d)
      = raised (dispatch_callback_query deliver (cb\<lparr>cb_data := Some (cp ''confirm_yes'')\<rparr>) s2 d)
    \<and> (session (dispatch_callback_query deliver (cb\<lparr>cb_data := Some (cp ''confirm_yes'')\<rparr>) s1 d)
          = \<lparr>fsm_state = None, fsm_data = Map.empty\<rparr>
        \<and> session (dispatch_callback_query deliver (cb\<lparr>cb_data := Some (cp ''confirm_yes'')\<rparr>) s2 d)
          = \<lparr>fsm_state = None, fsm_data = Map.empty\<rparr>
        \<or> session (dispatch_callback_query deliver (cb\<lparr>cb_data := Some (cp ''confirm_yes'')\<rparr>) s1 d)
          = s1
        \<and> session (dispatch_callback_query deliver (cb\<lparr>cb_data := Some (cp ''confirm_yes'')\<rparr>) s2 d)
          = s2)
    \<and> db (dispatch_callback_query deliver (cb\<lparr>cb_data := Some (cp ''confirm_no'')\<rparr>) s1 d)
      = db (dispatch_callback_query deliver (cb\<lparr>cb_data := Some (cp ''confirm_no'')\<rparr>) s2 d)
    \<and> sent (dispatch_callback_query deliver (cb\<lparr>cb_data := Some (cp ''confirm_no'')\<rparr>) s1 d)
      = sent (dispatch_callback_query deliver (cb\<lparr>cb_data := Some (cp ''confirm_no'')\<rparr>) s2 d)
    \<and> raised (dispatch_callback_query deliver (cb\<lparr>cb_data := Some (cp ''confirm_no'')\<rparr>) s1 d)
      = raised (dispatch_callback_query deliver (cb\<lparr>cb_data := Some (cp ''confirm_no'')\<rparr>) s2 d))
   \<and> ((\<forall>t kb. deliver (SendMessage (ChatId (cb_chat_id cb)) t kb) = None)
        \<and> deliver AnswerCallback = None \<longrightarrow>
       dispatch_callback_query deliver (cb\<lparr>cb_data := Some (cp ''confirm_yes'')\<rparr>) s1 d
         = dispatch_callback_query deliver (cb\<lparr>cb_data := Some (cp ''confirm_yes'')\<rparr>) s2 d
       \<and> session (dispatch_callback_query deliver (cb\<lparr>cb_data := Some (cp ''confirm_yes'')\<rparr>) s1 d)
         = \<lparr>fsm_state = None, fsm_data = Map.empty\<rparr>
       \<and> db (dispatch_callback_query deliver (cb\<lparr>cb_data := Some (cp ''confirm_yes'')\<rparr>) s1 d) = d
       \<and> raised (dispatch_callback_query deliver (cb\<lparr>cb_data := Some (cp ''confirm_yes'')\<rparr>) s1 d)
         = None
       \<and> (get_post (cb_from_user_id cb) d = Some p
            \<and> get_channel (cb_from_user_id cb) d = Some ch \<and> ch \<noteq> [] \<longrightarrow>
          sent (dispatch_callback_query deliver (cb\<lparr>cb_data := Some (cp ''confirm_yes'')\<rparr>) s1 d)
            = (case deliver (channel_send ch p) of
                 None \<Rightarrow>
                   [channel_send ch p,
                    SendMessage (ChatId (cb_chat_id cb)) (Some msg_published) (Some main_menu)]
               | Some e \<Rightarrow>
                   [SendMessage (ChatId (cb_chat_id cb)) (Some (msg_publish_error @ e))
                      (Some main_menu)])
              @ [AnswerCallback])
       \<and> (get_post (cb_from_user_id cb) d = None
            \<or> \<not> truthy (get_channel (cb_from_user_id cb) d) \<longrightarrow>
          sent (dispatch_callback_query deliver (cb\<lparr>cb_data := Some (cp ''confirm_yes'')\<rparr>) s1 d)
            = [AnswerCallback])
       \<and> dispatch_callback_query deliver (cb\<lparr>cb_data := Some (cp ''confirm_no'')\<rparr>) s1 d
         = \<lparr>db = d, session = \<lparr>fsm_state = None, fsm_data = Map.empty\<rparr>,
            sent = [SendMessage (ChatId (cb_chat_id cb)) (Some msg_cancelled) (Some main_menu),
                    AnswerCallback],
            raised = None\<rparr>)"
proof (intro conjI impI)
  let ?yes = "cb\<lparr>cb_data := Some (cp ''confirm_yes'')\<rparr>"
  let ?no = "cb\<lparr>cb_data := Some (cp ''confirm_no'')\<rparr>"
  note yes = cb_confirm_yes_reads_no_session [of deliver ?yes s1 d s2]
  note no = cb_confirm_no_reads_no_session [of deliver ?no s1 d s2]
  show "db (dispatch_callback_query deliver ?yes s1 d) = db (dispatch_callback_query deliver ?yes s2 d)"
    using yes by (simp only: dispatch_confirm_yes)
  show "sent (dispatch_callback_query deliver ?yes s1 d) = sent (dispatch_callback_query deliver ?yes s2 d)"
    using yes by (simp only: dispatch_confirm_yes)
  show "raised (dispatch_callback_query deliver ?yes s1 d)
          = raised (dispatch_callback_query deliver ?yes s2 d)"
    using yes by (simp only: dispatch_confirm_yes)
  show "session (dispatch_callback_query deliver ?yes s1 d) = \<lparr>fsm_state = None, fsm_data = Map.empty\<rparr>
          \<and> session (dispatch_callback_query deliver ?yes s2 d)
            = \<lparr>fsm_state = None, fsm_data = Map.empty\<rparr>
        \<or> session (dispatch_callback_query deliver ?yes s1 d) = s1
          \<and> session (dispatch_callback_query deliver ?yes s2 d) = s2"
    using yes by (simp only: dispatch_confirm_yes)
  show "db (dispatch_callback_query deliver ?no s1 d) = db (dispatch_callback_query deliver ?no s2 d)"
    using no by (simp only: dispatch_confirm_no)
  show "sent (dispatch_callback_query deliver ?no s1 d) = sent (dispatch_callback_query deliver ?no s2 d)"
    using no by (simp only: dispatch_confirm_no)
  show "raised (dispatch_callback_query deliver ?no s1 d)
          = raised (dispatch_callback_query deliver ?no s2 d)"
    using no by (simp only: dispatch_confirm_no)
next
  let ?yes = "cb\<lparr>cb_data := Some (cp ''confirm_yes'')\<rparr>"
  let ?no = "cb\<lparr>cb_data := Some (cp ''confirm_no'')\<rparr>"
  assume ok: "(\<forall>t kb. deliver (SendMessage (ChatId (cb_chat_id cb)) t kb) = None)
                \<and> deliver AnswerCallback = None"
  then have chat: "\<forall>t kb. deliver (SendMessage (ChatId (cb_chat_id ?yes)) t kb) = None"
    and chat': "\<forall>t kb. deliver (SendMessage (ChatId (cb_chat_id ?no)) t kb) = None"
    and ack: "deliver AnswerCallback = None"
    by simp_all
  have out: "cb_confirm_yes deliver ?yes s d =
               \<lparr>db = d, session = \<lparr>fsm_state = None, fsm_data = Map.empty\<rparr>,
                sent = sent (cb_confirm_yes deliver ?yes s d), raised = None\<rparr>" for s
    using chat ack
    by (simp add: cb_confirm_yes_def cb_message_answer_def clear_eq Let_def
        split: option.splits)
  have same: "sent (cb_confirm_yes deliver ?yes s1 d) = sent (cb_confirm_yes deliver ?yes s2 d)"
    using cb_confirm_yes_reads_no_session [of deliver ?yes s1 d s2] by simp
  show "dispatch_callback_query deliver ?yes s1 d = dispatch_callback_query deliver ?yes s2 d"
    unfolding dispatch_confirm_yes using out [of s1] out [of s2] same by simp
  show "session (dispatch_callback_query deliver ?yes s1 d)
          = \<lparr>fsm_state = None, fsm_data = Map.empty\<rparr>"
    unfolding dispatch_confirm_yes using out [of s1] by (metis outcome.select_convs(2))
  show "db (dispatch_callback_query deliver ?yes s1 d) = d"
    unfolding dispatch_confirm_yes by (rule cb_confirm_yes_keeps_store)
  show "raised (dispatch_callback_query deliver ?yes s1 d) = None"
    unfolding dispatch_confirm_yes using out [of s1] by (metis outcome.select_convs(4))
  show "dispatch_callback_query deliver ?no s1 d =
          \<lparr>db = d, session = \<lparr>fsm_state = None, fsm_data = Map.empty\<rparr>,
           sent = [SendMessage (ChatId (cb_chat_id cb)) (Some msg_cancelled) (Some main_menu),
                   AnswerCallback],
           raised = None\<rparr>"
    unfolding dispatch_confirm_no using cb_confirm_no_cancels [OF chat' ack, of s1 d] by simp
  {
    assume "get_post (cb_from_user_id cb) d = Some p
              \<and> get_channel (cb_from_user_id cb) d = Some ch \<and> ch \<noteq> []"
    then have p: "get_post (cb_from_user_id ?yes) d = Some p"
      and ch: "get_channel (cb_from_user_id ?yes) d = Some ch" and ne: "ch \<noteq> []"
      by simp_all
    show "sent (dispatch_callback_query deliver ?yes s1 d)
            = (case deliver (channel_send ch p) of
                 None \<Rightarrow>
                   [channel_send ch p,
                    SendMessage (ChatId (cb_chat_id cb)) (Some msg_published) (Some main_menu)]
               | Some e \<Rightarrow>
                   [SendMessage (ChatId (cb_chat_id cb)) (Some (msg_publish_error @ e))
                      (Some main_menu)])
              @ [AnswerCallback]"
      unfolding dispatch_confirm_yes
      using cb_confirm_yes_publishes [OF chat ack p ch ne, of s1]
      by (simp split: option.splits)
  }
  {
    assume "get_post (cb_from_user_id cb) d = None \<or> \<not> truthy (get_channel (cb_from_user_id cb) d)"
    then have missing: "get_post (cb_from_user_id ?yes) d = None
                 \<or> \<not> truthy (get_channel (cb_from_user_id ?yes) d)"
      by simp
    show "sent (dispatch_callback_query deliver ?yes s1 d) = [AnswerCallback]"
      unfolding dispatch_confirm_yes
      using missing ack
        cb_confirm_yes_without_prerequisite
          [where cb = "cb\<lparr>cb_data := Some (cp ''confirm_yes'')\<rparr>" and d = d
             and deliver = deliver and s = s1]
      by simp
  }
qed

theorem confirm_and_cancel_ignore_state_witness:
  "get_post (cb_from_user_id (pressed ''confirm_yes'')) drafted
     = Some (Some (cp ''Hello''), None, None, None)
   \<and> get_channel (cb_from_user_id (pressed ''confirm_yes'')) drafted = Some (cp ''@mychannel'')
   \<and> cp ''@mychannel'' \<noteq> []
   \<and> dispatch_callback_query (\<lambda>a. None) (pressed ''confirm_yes'') at_media drafted
     = dispatch_callback_query (\<lambda>a. None) (pressed ''confirm_yes'') at_button drafted
   \<and> dispatch_callback_query (\<lambda>a. None) (pressed ''confirm_yes'') at_media drafted
     = \<lparr>db = drafted, session = \<lparr>fsm_state = None, fsm_data = Map.empty\<rparr>,
        sent = [SendMessage (ChatRef (cp ''@mychannel'')) (Some (cp ''Hello'')) None,
                SendMessage (ChatId 7) (Some msg_published) (Some main_menu),
                AnswerCallback],
        raised = None\<rparr>
   \<and> dispatch_callback_query (\<lambda>a. None) (pressed ''confirm_no'') at_media drafted
     = \<lparr>db = drafted, session = \<lparr>fsm_state = None, fsm_data = Map.empty\<rparr>,
        sent = [SendMessage (ChatId 7) (Some msg_cancelled) (Some main_menu), AnswerCallback],
        raised = None\<rparr>"
proof -
  have u: "cb_from_user_id (pressed ''confirm_yes'') = 7" "cb_chat_id (pressed ''confirm_yes'') = 7"
    by (simp_all add: pressed_def)
  have y: "(pressed ''confirm_yes'')\<lparr>cb_data := Some (cp ''confirm_yes'')\<rparr> = pressed ''confirm_yes''"
    and n: "(pressed ''confirm_yes'')\<lparr>cb_data := Some (cp ''confirm_no'')\<rparr> = pressed ''confirm_no''"
    by (simp_all add: pressed_def)
  have a: "get_post (cb_from_user_id (pressed ''confirm_yes'')) drafted
             = Some (Some (cp ''Hello''), None, None, None)"
    by (simp add: u drafted_def get_post_save_post)
  have b: "get_channel (cb_from_user_id (pressed ''confirm_yes'')) drafted = Some (cp ''@mychannel'')"
    by (simp add: u drafted_def get_channel_def save_post_def linked_def set_channel_def)
  have c: "cp ''@mychannel'' \<noteq> []"
    by (simp add: cp_def)
  have cs: "channel_send (cp ''@mychannel'') (Some (cp ''Hello''), None, None, None)
              = SendMessage (ChatRef (cp ''@mychannel'')) (Some (cp ''Hello'')) None"
    by (simp add: channel_send_def)
  note t = confirm_and_cancel_ignore_state
    [of "\<lambda>a. None" "pressed ''confirm_yes''" at_media drafted at_button
        "(Some (cp ''Hello''), None, None, None)" "cp ''@mychannel''"]
  have full: "dispatch_callback_query (\<lambda>a. None) (pressed ''confirm_yes'') at_media drafted
     = \<lparr>db = drafted, session = \<lparr>fsm_state = None, fsm_data = Map.empty\<rparr>,
        sent = [SendMessage (ChatRef (cp ''@mychannel'')) (Some (cp ''Hello'')) None,
                SendMessage (ChatId 7) (Some msg_published) (Some main_menu),
                AnswerCallback],
        raised = None\<rparr>"
    using t a b c by (cases "dispatch_callback_query (\<lambda>a. None) (pressed ''confirm_yes'') at_media drafted")
      (simp add: y n u cs)
  have eq: "dispatch_callback_query (\<lambda>a. None) (pressed ''confirm_yes'') at_media drafted
     = dispatch_callback_query (\<lambda>a. None) (pressed ''confirm_yes'') at_button drafted"
    using t by (simp add: y)
  have cancel: "dispatch_callback_query (\<lambda>a. None) (pressed ''confirm_no'') at_media drafted
     = \<lparr>db = drafted, session = \<lparr>fsm_state = None, fsm_data = Map.empty\<rparr>,
        sent = [SendMessage (ChatId 7) (Some msg_cancelled) (Some main_menu), AnswerCallback],
        raised = None\<rparr>"
    using t by (simp add: n u)
  from a b c eq full cancel show ?thesis
    by blast
qed

text \<open>
  C10 as stated fails. With the network down the report of the confirm handler and
  the cancellation of the cancel handler raise before \<^verbatim>\<open>state.clear()\<close>: the session
  is not cleared, and two different sessions end as two different sessions.
\<close>

theorem confirm_and_cancel_with_network_down:
  "session (dispatch_callback_query network_down (pressed ''confirm_yes'') at_button drafted)
     = at_button
   \<and> session (dispatch_callback_query network_down (pressed ''confirm_yes'') at_media drafted)
     = at_media
   \<and> session (dispatch_callback_query network_down (pressed ''confirm_no'') at_media drafted)
     = at_media
   \<and> fsm_state at_button = Some PostForm_button \<and> fsm_state at_media = Some PostForm_media"
  by (simp add: dispatch_callback_query_def cb_confirm_yes_def cb_confirm_no_def pressed_def
      get_post_def get_channel_def drafted_def save_post_def linked_def set_channel_def
      network_down_def at_button_def at_media_def Let_def cp_def)

end
